theory Spec2Isabelle
  imports Complex_Main
begin

section \<open>golden-wind: a bot that rewrites text on the first page of a PDF\<close>

text \<open>
  A shallow embedding of \<^verbatim>\<open>golden_wind.py\<close>. The program is glue around three
  libraries (PyMuPDF, imported as \<^verbatim>\<open>fitz\<close>; PyYAML; python-telegram-bot) and the standard
  library. What the program itself does is translated function by function; what the
  libraries do is kept as small as the program's use of them allows and is marked as such
  at each definition.
\<close>

subsection \<open>Errors\<close>

text \<open>
  Every exception the program can meet is a value. The first three carry the names of
  the specification's taxonomy: \<open>ConfigurationUnavailable\<close> stands for the
  \<^verbatim>\<open>FileNotFoundError\<close>, \<^verbatim>\<open>yaml.YAMLError\<close> and \<^verbatim>\<open>ValueError\<close> raised while a
  configuration file is read, \<open>DownloadFailed\<close> for a failed retrieval from the platform,
  \<open>PageSelectionFailed\<close> for the \<^verbatim>\<open>ValueError\<close> of \<^verbatim>\<open>Document.select\<close>. The others are
  the Python exceptions of the same name.
\<close>

datatype error =
    ConfigurationUnavailable
  | DownloadFailed
  | PageSelectionFailed
  | FileNotFoundError
  | FileDataError
  | FileExistsError
  | IndexError
  | AttributeError
  | TypeError

subsection \<open>Strings and paths (standard library)\<close>

definition ascii_lowercase :: string where
  "ascii_lowercase = ''abcdefghijklmnopqrstuvwxyz''"

definition digits :: string where
  "digits = ''0123456789''"

text \<open>\<^verbatim>\<open>s.endswith(t)\<close>: a comparison of characters, hence case-sensitive.\<close>

definition endswith :: "string \<Rightarrow> string \<Rightarrow> bool" where
  "endswith s t = (length t \<le> length s \<and> drop (length s - length t) s = t)"

text \<open>
  \<^verbatim>\<open>not v\<close> for a value that is \<^verbatim>\<open>None\<close> or a string, which is what \<^verbatim>\<open>dict.get\<close> returns
  on a \<^verbatim>\<open>Dict[str, str]\<close>: true for \<^verbatim>\<open>None\<close> and for the empty string.
\<close>

definition falsy :: "string option \<Rightarrow> bool" where
  "falsy v = (case v of None \<Rightarrow> True | Some s \<Rightarrow> s = [])"

text \<open>\<^verbatim>\<open>s.rfind(c)\<close> for one character: the highest index of \<open>c\<close>, or \<open>-1\<close>.\<close>

definition rfind :: "string \<Rightarrow> char \<Rightarrow> int" where
  "rfind s c =
     (if c \<in> set s
      then int (length s) - 1 - int (length (takeWhile (\<lambda>d. d \<noteq> c) (rev s)))
      else - 1)"

text \<open>
  A path is a directory and a file name in it: \<^verbatim>\<open>Path(temp_dir) / file_name\<close> is the pair
  \<open>(temp_dir, file_name)\<close>, for a file name that is a single path component.
  \<^verbatim>\<open>Path.suffix\<close> and \<^verbatim>\<open>Path.stem\<close> are pathlib's: the name is cut at its last dot,
  unless that dot is the first or the last character; the suffix keeps the dot.
\<close>

type_synonym path = "string \<times> string"

definition suffix :: "path \<Rightarrow> string" where
  "suffix p =
     (let name = snd p; i = rfind name (CHR ''.'')
      in if 0 < i \<and> i < int (length name) - 1 then drop (nat i) name else [])"

definition stem :: "path \<Rightarrow> string" where
  "stem p =
     (let name = snd p; i = rfind name (CHR ''.'')
      in if 0 < i \<and> i < int (length name) - 1 then take (nat i) name else name)"

subsection \<open>Pages and documents (PyMuPDF)\<close>

text \<open>
  \<^verbatim>\<open>fitz.Rect\<close> has the four coordinates \<open>x0, y0, x1, y1\<close>; \<^verbatim>\<open>fitz.Point\<close> has two. The
  program copies coordinates and never computes with them.
\<close>

record rect =
  x0 :: real
  y0 :: real
  x1 :: real
  y1 :: real

datatype point = Point real real

text \<open>
  PyMuPDF's page coordinates have their origin at the top-left of the page, with \<open>y\<close>
  growing downwards, and a rectangle is given by its top-left corner \<open>(x0, y0)\<close> and its
  bottom-right corner \<open>(x1, y1)\<close>. These are the library's \<^verbatim>\<open>Rect.top_left\<close> and
  \<^verbatim>\<open>Rect.bottom_left\<close>.
\<close>

definition top_left :: "rect \<Rightarrow> point" where
  "top_left r = Point (x0 r) (y0 r)"

definition bottom_left :: "rect \<Rightarrow> point" where
  "bottom_left r = Point (x0 r) (y1 r)"

text \<open>
  The program changes a page through three calls only. A page is its original content
  together with the calls made on it so far, in order: whatever the library's page state
  is, it is a function of these. The arguments of \<open>InsertText\<close> are the insertion point,
  the text, \<^verbatim>\<open>fontsize\<close>, \<^verbatim>\<open>fontname\<close> and \<^verbatim>\<open>color\<close>.
\<close>

datatype page_op =
    AddRedactAnnot rect
  | ApplyRedactions
  | InsertText point string nat string "nat \<times> nat \<times> nat"

record page =
  original :: string
  ops :: "page_op list"

definition add_redact_annot :: "page \<Rightarrow> rect \<Rightarrow> page" where
  "add_redact_annot page r = page\<lparr>ops := ops page @ [AddRedactAnnot r]\<rparr>"

definition apply_redactions :: "page \<Rightarrow> page" where
  "apply_redactions page = page\<lparr>ops := ops page @ [ApplyRedactions]\<rparr>"

definition insert_text ::
  "page \<Rightarrow> point \<Rightarrow> string \<Rightarrow> nat \<Rightarrow> string \<Rightarrow> nat \<times> nat \<times> nat \<Rightarrow> page" where
  "insert_text page pt text fontsize fontname color =
     page\<lparr>ops := ops page @ [InsertText pt text fontsize fontname color]\<rparr>"

text \<open>
  \<^verbatim>\<open>page.search_for(text)\<close> is the library's text search. It is a parameter of the model:
  any function from the page (original content and all calls so far) and the needle to
  the list of rectangles found.
\<close>

type_synonym search = "page \<Rightarrow> string \<Rightarrow> rect list"

record fitz_document =
  pages :: "page list"

text \<open>What a file holds: a PDF, or bytes that \<^verbatim>\<open>fitz.open\<close> cannot read.\<close>

datatype content = PDF fitz_document | NotPDF

text \<open>
  Modelled from the spec: \<^verbatim>\<open>Document.select\<close> is PyMuPDF's and not part of the program.
  The specification says of it that the working set is restricted to the pages listed,
  all other pages are dropped, and that selecting page index 0 on an empty document is
  invalid. So: the selection fails when the list is empty or names a page the document
  does not have, and otherwise keeps the listed pages in the listed order.
\<close>

definition select :: "fitz_document \<Rightarrow> nat list \<Rightarrow> error + fitz_document" where
  "select document pyliste =
     (if pyliste = [] \<or> list_ex (\<lambda>i. length (pages document) \<le> i) pyliste
      then Inl PageSelectionFailed
      else Inr (document\<lparr>pages := map (\<lambda>i. pages document ! i) pyliste\<rparr>))"

text \<open>\<^verbatim>\<open>document[i]\<close>: the page, or \<^verbatim>\<open>IndexError\<close>.\<close>

definition getitem :: "fitz_document \<Rightarrow> nat \<Rightarrow> error + page" where
  "getitem document i =
     (if i < length (pages document) then Inr (pages document ! i) else Inl IndexError)"

subsection \<open>The world the program runs in\<close>

text \<open>
  A configuration file is missing, unreadable by its parser (\<^verbatim>\<open>yaml.safe_load\<close> for the
  rules, \<^verbatim>\<open>int\<close> for the user id), or has a value. A rule is a \<^verbatim>\<open>Dict[str, str]\<close>.
\<close>

datatype 'a config_file = Missing | Malformed | Loaded 'a

type_synonym entry = "string \<rightharpoonup> string"

text \<open>
  What can be observed from outside: a file fetched from the platform into a location,
  a document saved to a location, a file sent to a chat.
\<close>

datatype event =
    Downloaded string path
  | Saved path fitz_document
  | Sent int path content

text \<open>
  The state: the three configuration files; the files the platform holds, by file id;
  the state of \<^verbatim>\<open>random\<close> (the indices it will draw next); the names \<^verbatim>\<open>tempfile\<close> will
  try next; the temporary directories that exist; the local files; and the events so far.
\<close>

record world =
  token_file :: "string config_file"
  user_id_file :: "int config_file"
  actions_file :: "entry list config_file"
  remote :: "string \<rightharpoonup> content"
  rng :: "nat \<Rightarrow> nat"
  tmp_names :: "string list"
  dirs :: "string list"
  files :: "path \<rightharpoonup> content"
  trace :: "event list"

type_synonym 'a result = "(error + 'a) \<times> world"

subsection \<open>random_string\<close>

text \<open>
  \<^verbatim>\<open>random.choices(population, k=k)\<close> is the standard library's: \<open>k\<close> draws from the
  population, with replacement. The draws are the next \<open>k\<close> indices of the generator,
  each brought into the range of the population.
\<close>

definition choices :: "'a list \<Rightarrow> nat \<Rightarrow> (nat \<Rightarrow> nat) \<Rightarrow> 'a list" where
  "choices population k g = map (\<lambda>i. population ! (g i mod length population)) [0..<k]"

definition random_string :: "nat \<Rightarrow> world \<Rightarrow> string \<times> world" where
  "random_string len w =
     (let alphabet = ascii_lowercase @ digits
      in (choices alphabet len (rng w), w\<lparr>rng := (\<lambda>i. rng w (i + len))\<rparr>))"

subsection \<open>App: the configuration properties\<close>

definition token :: "world \<Rightarrow> error + string" where
  "token w = (case token_file w of Loaded t \<Rightarrow> Inr t | _ \<Rightarrow> Inl ConfigurationUnavailable)"

definition user_id :: "world \<Rightarrow> error + int" where
  "user_id w = (case user_id_file w of Loaded n \<Rightarrow> Inr n | _ \<Rightarrow> Inl ConfigurationUnavailable)"

definition actions :: "world \<Rightarrow> error + entry list" where
  "actions w =
     (case actions_file w of Loaded es \<Rightarrow> Inr es | _ \<Rightarrow> Inl ConfigurationUnavailable)"

subsection \<open>Temporary directories (standard library)\<close>

text \<open>
  \<^verbatim>\<open>tempfile.TemporaryDirectory()\<close> as a \<^verbatim>\<open>with\<close> block: the directory is made under the
  first candidate name that does not exist yet (\<^verbatim>\<open>FileExistsError\<close> when the candidates
  run out), the body runs, and the directory goes with everything in it, whether the
  body returned or raised.
\<close>

definition mkdtemp :: "world \<Rightarrow> string result" where
  "mkdtemp w =
     (case dropWhile (\<lambda>n. n \<in> set (dirs w)) (tmp_names w) of
        [] \<Rightarrow> (Inl FileExistsError, w\<lparr>tmp_names := []\<rparr>)
      | d # rest \<Rightarrow> (Inr d, w\<lparr>tmp_names := rest, dirs := d # dirs w\<rparr>))"

definition cleanup :: "string \<Rightarrow> world \<Rightarrow> world" where
  "cleanup d w =
     w\<lparr>dirs := removeAll d (dirs w),
       files := (\<lambda>p. if fst p = d then None else files w p)\<rparr>"

definition TemporaryDirectory :: "(string \<Rightarrow> world \<Rightarrow> 'a result) \<Rightarrow> world \<Rightarrow> 'a result" where
  "TemporaryDirectory body w =
     (case mkdtemp w of
        (Inl e, w1) \<Rightarrow> (Inl e, w1)
      | (Inr temp_dir, w1) \<Rightarrow>
          (case body temp_dir w1 of (r, w2) \<Rightarrow> (r, cleanup temp_dir w2)))"

subsection \<open>Files\<close>

definition fitz_open :: "path \<Rightarrow> world \<Rightarrow> error + fitz_document" where
  "fitz_open p w =
     (case files w p of
        None \<Rightarrow> Inl FileNotFoundError
      | Some NotPDF \<Rightarrow> Inl FileDataError
      | Some (PDF d) \<Rightarrow> Inr d)"

definition save :: "fitz_document \<Rightarrow> path \<Rightarrow> world \<Rightarrow> world" where
  "save document location w =
     w\<lparr>files := (files w)(location \<mapsto> PDF document),
       trace := trace w @ [Saved location document]\<rparr>"

subsection \<open>App.process_document\<close>

text \<open>
  The body of the inner loop, for one rectangle found: the rectangle is marked for
  redaction, the redaction is applied, and text is inserted at
  \<^verbatim>\<open>fitz.Point(rect.x0, rect.y1)\<close> with \<^verbatim>\<open>fontsize=8\<close>, \<^verbatim>\<open>fontname="helv"\<close> and
  \<^verbatim>\<open>color=(0, 0, 0)\<close>. The text inserted is \<^verbatim>\<open>text\<close>, the string searched for.
  (The two \<^verbatim>\<open>logger.info\<close> calls write to the log only and are left out; the second is
  the only place that reads \<^verbatim>\<open>new_text\<close> after the test.)
\<close>

definition replace_occurrence :: "string \<Rightarrow> page \<Rightarrow> rect \<Rightarrow> page" where
  "replace_occurrence text page r =
     insert_text (apply_redactions (add_redact_annot page r))
       (Point (x0 r) (y1 r)) text 8 ''helv'' (0, 0, 0)"

text \<open>
  The body of the outer loop, for one entry: \<^verbatim>\<open>continue\<close> when either value is missing
  or empty; otherwise one search on the page as it is now, then the inner loop over the
  rectangles that search returned.
\<close>

definition apply_entry :: "search \<Rightarrow> page \<Rightarrow> entry \<Rightarrow> page" where
  "apply_entry search_for page entry =
     (let text = entry ''replace''; new_text = entry ''with''
      in if falsy text \<or> falsy new_text then page
         else (case text of
                 None \<Rightarrow> page
               | Some t \<Rightarrow> foldl (replace_occurrence t) page (search_for page t)))"

definition apply_actions :: "search \<Rightarrow> page \<Rightarrow> entry list \<Rightarrow> page" where
  "apply_actions search_for page entries = foldl (apply_entry search_for) page entries"

text \<open>
  \<^verbatim>\<open>process_document\<close> is a context manager: \<open>body\<close> is what the caller runs inside the
  \<^verbatim>\<open>with\<close> block, with the location yielded. The order is the source's: temporary
  directory, random string, location, \<^verbatim>\<open>fitz.open\<close>, \<^verbatim>\<open>select([0])\<close>, \<^verbatim>\<open>document[0]\<close>,
  then \<^verbatim>\<open>self.actions\<close> (read here, once per call), the loops, \<^verbatim>\<open>save\<close>, \<^verbatim>\<open>yield\<close>. The
  page is an object of the document, so the document saved holds the page as changed.
\<close>

definition process_document ::
  "search \<Rightarrow> path \<Rightarrow> (path \<Rightarrow> world \<Rightarrow> 'a result) \<Rightarrow> world \<Rightarrow> 'a result" where
  "process_document search_for p body =
     TemporaryDirectory (\<lambda>temp_dir w0.
       (case random_string 8 w0 of (hash, w) \<Rightarrow>
         (let location = (temp_dir, stem p @ ''-'' @ hash @ ''.'' @ suffix p)
          in case fitz_open p w of
               Inl e \<Rightarrow> (Inl e, w)
             | Inr opened \<Rightarrow>
                (case select opened [0] of
                   Inl e \<Rightarrow> (Inl e, w)
                 | Inr document \<Rightarrow>
                    (case getitem document 0 of
                       Inl e \<Rightarrow> (Inl e, w)
                     | Inr page \<Rightarrow>
                        (case actions w of
                           Inl e \<Rightarrow> (Inl e, w)
                         | Inr entries \<Rightarrow>
                            (let page' = apply_actions search_for page entries;
                                 document' = document\<lparr>pages := (pages document)[0 := page']\<rparr>
                             in body location (save document' location w))))))))"

subsection \<open>Messages (python-telegram-bot)\<close>

text \<open>
  \<^verbatim>\<open>Update.message\<close>, \<^verbatim>\<open>Message.document\<close> and \<^verbatim>\<open>Document.file_name\<close> are optional in
  the library: each may be \<^verbatim>\<open>None\<close>.
\<close>

record tg_document =
  file_id :: string
  file_name :: "string option"

record message =
  chat_id :: int
  document :: "tg_document option"

record update =
  message :: "message option"

subsection \<open>App.download_document\<close>

text \<open>
  \<^verbatim>\<open>bot.get_file\<close> asks the platform for the file (\<open>DownloadFailed\<close> when it has none
  under that id); the file is then written into a temporary directory of its own, under
  the name the message gives it, and the location is yielded to \<open>body\<close>.
\<close>

definition download_to_drive :: "string \<Rightarrow> content \<Rightarrow> path \<Rightarrow> world \<Rightarrow> world" where
  "download_to_drive fid c location w =
     w\<lparr>files := (files w)(location \<mapsto> c), trace := trace w @ [Downloaded fid location]\<rparr>"

definition download_document ::
  "message \<Rightarrow> (path \<Rightarrow> world \<Rightarrow> 'a result) \<Rightarrow> world \<Rightarrow> 'a result" where
  "download_document m body w =
     (case document m of
        None \<Rightarrow> (Inl AttributeError, w)
      | Some d \<Rightarrow>
         (case remote w (file_id d) of
            None \<Rightarrow> (Inl DownloadFailed, w)
          | Some c \<Rightarrow>
             TemporaryDirectory (\<lambda>temp_dir w1.
               (case file_name d of
                  None \<Rightarrow> (Inl TypeError, w1)
                | Some fn \<Rightarrow>
                   (let location = (temp_dir, fn)
                    in body location (download_to_drive (file_id d) c location w1)))) w))"

subsection \<open>App.handler\<close>

text \<open>\<^verbatim>\<open>bot.send_document(chat_id=chat_id, document=copy)\<close>: the file at \<open>copy\<close> is sent.\<close>

definition send_document :: "int \<Rightarrow> path \<Rightarrow> world \<Rightarrow> unit result" where
  "send_document chat copy w =
     (case files w copy of
        None \<Rightarrow> (Inl FileNotFoundError, w)
      | Some c \<Rightarrow> (Inr (), w\<lparr>trace := trace w @ [Sent chat copy c]\<rparr>))"

text \<open>
  The handler reads \<^verbatim>\<open>update.message.chat_id\<close> and \<^verbatim>\<open>update.message.document\<close>, then
  tests \<^verbatim>\<open>not document or not document.file_name.endswith(".pdf")\<close>: the second operand
  is evaluated only for a document that is there, and calls \<^verbatim>\<open>endswith\<close> on whatever
  \<^verbatim>\<open>file_name\<close> is. An attribute read on \<^verbatim>\<open>None\<close> is an \<^verbatim>\<open>AttributeError\<close>.
\<close>

definition handler :: "search \<Rightarrow> update \<Rightarrow> world \<Rightarrow> unit result" where
  "handler search_for u w =
     (case message u of
        None \<Rightarrow> (Inl AttributeError, w)
      | Some m \<Rightarrow>
         (case document m of
            None \<Rightarrow> (Inr (), w)
          | Some d \<Rightarrow>
             (case file_name d of
                None \<Rightarrow> (Inl AttributeError, w)
              | Some fn \<Rightarrow>
                 if \<not> endswith fn ''.pdf'' then (Inr (), w)
                 else download_document m (\<lambda>original.
                        process_document search_for original (\<lambda>copy.
                          send_document (chat_id m) copy)) w)))"

subsection \<open>App.__init__\<close>

text \<open>
  The constructor reads the token (for the application builder) and then the user id
  (for the filter), and registers the handler. It reads nothing else.
\<close>

record app =
  bot_token :: string
  filter_user :: int

definition init :: "world \<Rightarrow> error + app" where
  "init w =
     (case token w of
        Inl e \<Rightarrow> Inl e
      | Inr t \<Rightarrow>
         (case user_id w of
            Inl e \<Rightarrow> Inl e
          | Inr n \<Rightarrow> Inr \<lparr>bot_token = t, filter_user = n\<rparr>))"

subsection \<open>A concrete run\<close>

text \<open>
  One page reading \<open>Invoice #42\<close>, a second page, and a search that finds \<open>Invoice\<close> in
  one rectangle and \<open>#42\<close> in another, the latter only while nothing has been done to
  the page. The rules file holds one rule; the platform holds the document under the id
  \<open>f1\<close>; two files are already on the disk, the document and a PDF without pages.
\<close>

definition demo_rect :: rect where
  "demo_rect = \<lparr>x0 = 72, y0 = 100, x1 = 110, y1 = 112\<rparr>"

definition demo_rect2 :: rect where
  "demo_rect2 = \<lparr>x0 = 114, y0 = 100, x1 = 130, y1 = 112\<rparr>"

definition demo_page :: page where
  "demo_page = \<lparr>original = ''Invoice #42'', ops = []\<rparr>"

definition demo_search :: search where
  "demo_search page text =
     (if text = ''Invoice'' then [demo_rect]
      else if text = ''#42'' \<and> ops page = [] then [demo_rect2]
      else [])"

definition demo_rule :: entry where
  "demo_rule = [''replace'' \<mapsto> ''Invoice'', ''with'' \<mapsto> ''Receipt'']"

definition demo_rule2 :: entry where
  "demo_rule2 = [''replace'' \<mapsto> ''#42'', ''with'' \<mapsto> ''#43'']"

definition demo_inert :: entry where
  "demo_inert = [''replace'' \<mapsto> ''Invoice'']"

definition demo_doc :: fitz_document where
  "demo_doc = \<lparr>pages = [demo_page, \<lparr>original = ''Terms'', ops = []\<rparr>]\<rparr>"

definition demo_world :: world where
  "demo_world =
     \<lparr>token_file = Loaded ''123:abc'', user_id_file = Loaded 42,
      actions_file = Loaded [demo_rule],
      remote = [''f1'' \<mapsto> PDF demo_doc],
      rng = (\<lambda>i. 3 * i), tmp_names = [''tmp0'', ''tmp1''], dirs = [],
      files = [(''in'', ''inv.pdf'') \<mapsto> PDF demo_doc, (''in'', ''empty.pdf'') \<mapsto> PDF \<lparr>pages = []\<rparr>],
      trace = []\<rparr>"

definition demo_message :: "string option \<Rightarrow> message" where
  "demo_message fn = \<lparr>chat_id = 7, document = Some \<lparr>file_id = ''f1'', file_name = fn\<rparr>\<rparr>"

section \<open>Lemmas\<close>

subsection \<open>The loops\<close>

text \<open>One occurrence adds three calls to the page, and nothing else changes.\<close>

lemma replace_occurrence_ops:
  "ops (replace_occurrence t p r) =
     ops p @ [AddRedactAnnot r, ApplyRedactions, InsertText (Point (x0 r) (y1 r)) t 8 ''helv'' (0, 0, 0)]"
  by (simp add: replace_occurrence_def insert_text_def apply_redactions_def add_redact_annot_def)

lemma replace_occurrence_original: "original (replace_occurrence t p r) = original p"
  by (simp add: replace_occurrence_def insert_text_def apply_redactions_def add_redact_annot_def)

lemma foldl_replace_ops:
  "ops (foldl (replace_occurrence t) p rs) =
     ops p @ concat (map (\<lambda>r. [AddRedactAnnot r, ApplyRedactions,
                               InsertText (Point (x0 r) (y1 r)) t 8 ''helv'' (0, 0, 0)]) rs)"
  by (induction rs arbitrary: p) (simp_all add: replace_occurrence_ops)

lemma foldl_replace_original: "original (foldl (replace_occurrence t) p rs) = original p"
  by (induction rs arbitrary: p) (simp_all add: replace_occurrence_original)

lemma apply_entry_rule:
  "entry ''replace'' = Some t \<Longrightarrow> entry ''with'' = Some n \<Longrightarrow> t \<noteq> [] \<Longrightarrow> n \<noteq> [] \<Longrightarrow>
     apply_entry sf p entry = foldl (replace_occurrence t) p (sf p t)"
  by (simp add: apply_entry_def falsy_def)

lemma apply_entry_skip:
  "falsy (entry ''replace'') \<or> falsy (entry ''with'') \<Longrightarrow> apply_entry sf p entry = p"
  by (auto simp add: apply_entry_def Let_def)

lemma apply_actions_append:
  "apply_actions sf p (es @ fs) = apply_actions sf (apply_actions sf p es) fs"
  by (simp add: apply_actions_def)

lemma apply_actions_original: "original (apply_actions sf p es) = original p"
proof (induction es arbitrary: p)
  case Nil show ?case by (simp add: apply_actions_def)
next
  case (Cons e es)
  have "original (apply_entry sf p e) = original p"
    by (cases "e ''replace''") (auto simp add: apply_entry_def Let_def foldl_replace_original)
  with Cons show ?case by (simp add: apply_actions_def)
qed

subsection \<open>Library calls\<close>

lemma choices_length: "length (choices population k g) = k"
  by (simp add: choices_def)

lemma choices_set: "population \<noteq> [] \<Longrightarrow> set (choices population k g) \<subseteq> set population"
  by (auto simp add: choices_def)

lemma mkdtemp_ok:
  "dropWhile (\<lambda>n. n \<in> set (dirs w)) (tmp_names w) = d # rest \<Longrightarrow>
     mkdtemp w = (Inr d, w\<lparr>tmp_names := rest, dirs := d # dirs w\<rparr>)"
  by (simp add: mkdtemp_def)

lemma mkdtemp_fresh:
  assumes "dropWhile (\<lambda>n. n \<in> set (dirs w)) (tmp_names w) = d # rest"
  shows "d \<notin> set (dirs w)"
proof -
  have "dropWhile (\<lambda>n. n \<in> set (dirs w)) (tmp_names w) \<noteq> []" using assms by simp
  then have "\<not> (hd (dropWhile (\<lambda>n. n \<in> set (dirs w)) (tmp_names w)) \<in> set (dirs w))"
    by (rule hd_dropWhile)
  then show ?thesis using assms by simp
qed

lemma select_first:
  "pages doc \<noteq> [] \<Longrightarrow> select doc [0] = Inr (doc\<lparr>pages := [pages doc ! 0]\<rparr>)"
  by (simp add: select_def)

lemma select_empty: "pages doc = [] \<Longrightarrow> select doc [0] = Inl PageSelectionFailed"
  by (simp add: select_def)

subsection \<open>process_document, run to its end\<close>

text \<open>
  With a directory to be had, a PDF at the path, a first page and a rules file that
  loads, \<open>process_document\<close> reaches its \<^verbatim>\<open>yield\<close>: the caller's block runs on the location
  and on the state in which the document has been saved, and the directory is removed
  afterwards. Without a first page, or without rules, it stops before the save.
\<close>

lemma process_document_yields:
  fixes body :: "path \<Rightarrow> world \<Rightarrow> 'a result"
  assumes tmp: "dropWhile (\<lambda>n. n \<in> set (dirs w)) (tmp_names w) = d # rest"
    and pdf: "files w p = Some (PDF doc)"
    and page: "pages doc \<noteq> []"
    and rules: "actions_file w = Loaded es"
  shows "process_document sf p body w =
     (case body (d, stem p @ ''-'' @ choices (ascii_lowercase @ digits) 8 (rng w) @ ''.'' @ suffix p)
             (save (doc\<lparr>pages := [apply_actions sf (pages doc ! 0) es]\<rparr>)
                (d, stem p @ ''-'' @ choices (ascii_lowercase @ digits) 8 (rng w) @ ''.'' @ suffix p)
                (w\<lparr>tmp_names := rest, dirs := d # dirs w, rng := (\<lambda>i. rng w (i + 8))\<rparr>))
      of (r, w3) \<Rightarrow> (r, cleanup d w3))"
  using pdf rules
  by (simp add: process_document_def TemporaryDirectory_def mkdtemp_ok[OF tmp] random_string_def
      fitz_open_def select_first[OF page] getitem_def actions_def Let_def)

lemma process_document_fails:
  fixes body :: "path \<Rightarrow> world \<Rightarrow> 'a result"
  assumes tmp: "dropWhile (\<lambda>n. n \<in> set (dirs w)) (tmp_names w) = d # rest"
    and pdf: "files w p = Some (PDF doc)"
    and bad: "pages doc = [] \<and> e = PageSelectionFailed \<or>
              pages doc \<noteq> [] \<and> (actions_file w = Missing \<or> actions_file w = Malformed) \<and> e = ConfigurationUnavailable"
  shows "process_document sf p body w =
     (Inl e, cleanup d (w\<lparr>tmp_names := rest, dirs := d # dirs w, rng := (\<lambda>i. rng w (i + 8))\<rparr>))"
  using pdf bad
  by (auto simp add: process_document_def TemporaryDirectory_def mkdtemp_ok[OF tmp] random_string_def
      fitz_open_def select_first select_empty getitem_def actions_def Let_def)

subsection \<open>The concrete run, evaluated\<close>

lemma demo_hash: "fst (random_string 8 demo_world) = ''adgjmpsv''"
  by (simp add: random_string_def choices_def demo_world_def ascii_lowercase_def digits_def
      upt_rec [of _ "numeral _"] upt_rec [of _ "Suc _"])

lemma demo_name: "stem (''in'', ''inv.pdf'') = ''inv'' \<and> suffix (''in'', ''inv.pdf'') = ''.pdf''"
  by (simp add: stem_def suffix_def rfind_def)

lemma demo_run:
  "fst (handler demo_search \<lparr>message = Some (demo_message (Some ''inv.pdf''))\<rparr> demo_world) = Inr ()
   \<and> trace (snd (handler demo_search \<lparr>message = Some (demo_message (Some ''inv.pdf''))\<rparr> demo_world)) =
      [Downloaded ''f1'' (''tmp0'', ''inv.pdf''),
       Saved (''tmp1'', ''inv-adgjmpsv..pdf'')
         \<lparr>pages = [\<lparr>original = ''Invoice #42'',
                    ops = [AddRedactAnnot demo_rect, ApplyRedactions,
                           InsertText (Point 72 112) ''Invoice'' 8 ''helv'' (0, 0, 0)]\<rparr>]\<rparr>,
       Sent 7 (''tmp1'', ''inv-adgjmpsv..pdf'')
         (PDF \<lparr>pages = [\<lparr>original = ''Invoice #42'',
                    ops = [AddRedactAnnot demo_rect, ApplyRedactions,
                           InsertText (Point 72 112) ''Invoice'' 8 ''helv'' (0, 0, 0)]\<rparr>]\<rparr>)]
   \<and> dirs (snd (handler demo_search \<lparr>message = Some (demo_message (Some ''inv.pdf''))\<rparr> demo_world)) = []"
  by (simp add: handler_def demo_message_def demo_world_def endswith_def download_document_def
      TemporaryDirectory_def mkdtemp_def download_to_drive_def process_document_def
      random_string_def choices_def ascii_lowercase_def digits_def fitz_open_def select_def
      getitem_def actions_def apply_actions_def apply_entry_def falsy_def demo_search_def
      demo_rule_def demo_doc_def demo_page_def demo_rect_def replace_occurrence_def insert_text_def
      apply_redactions_def add_redact_annot_def save_def send_document_def cleanup_def stem_def
      suffix_def rfind_def Let_def upt_rec [of _ "numeral _"] upt_rec [of _ "Suc _"])

section \<open>The claims\<close>

text \<open>
  C1. For a rule whose \<^verbatim>\<open>replace\<close> and \<^verbatim>\<open>with\<close> values are both non-empty, the rule adds
  to the page, for each rectangle the search returned and in that order, a redaction of
  the rectangle, its application, and an insertion of the text searched for. The value
  of \<^verbatim>\<open>with\<close> is not written: the page that results is the same for every non-empty
  value of it. The original content of the page is untouched.
\<close>

theorem find_text_reinserted:
  assumes "entry ''replace'' = Some t" and "entry ''with'' = Some n"
    and "t \<noteq> []" and "n \<noteq> []" and "n' \<noteq> []"
  shows "ops (apply_entry sf p entry) =
           ops p @ concat (map (\<lambda>r. [AddRedactAnnot r, ApplyRedactions,
                                     InsertText (Point (x0 r) (y1 r)) t 8 ''helv'' (0, 0, 0)])
                             (sf p t))
         \<and> original (apply_entry sf p entry) = original p
         \<and> apply_entry sf p (entry(''with'' \<mapsto> n')) = apply_entry sf p entry"
proof -
  have a: "apply_entry sf p entry = foldl (replace_occurrence t) p (sf p t)"
    using assms by (simp add: apply_entry_rule)
  have b: "apply_entry sf p (entry(''with'' \<mapsto> n')) = foldl (replace_occurrence t) p (sf p t)"
    using assms by (simp add: apply_entry_rule)
  show ?thesis
    by (simp add: a b foldl_replace_ops foldl_replace_original)
qed

theorem find_text_reinserted_witness:
  "demo_rule ''replace'' = Some ''Invoice'' \<and> demo_rule ''with'' = Some ''Receipt''
   \<and> ops (apply_entry demo_search demo_page demo_rule) =
       [AddRedactAnnot demo_rect, ApplyRedactions,
        InsertText (Point 72 112) ''Invoice'' 8 ''helv'' (0, 0, 0)]
   \<and> apply_entry demo_search demo_page (demo_rule(''with'' \<mapsto> ''Refund'')) =
       apply_entry demo_search demo_page demo_rule"
  using find_text_reinserted [of demo_rule "''Invoice''" "''Receipt''" "''Refund''" demo_search demo_page]
  by (simp add: demo_rule_def demo_search_def demo_page_def demo_rect_def)

text \<open>
  C2, as stated, fails. The claim has the program stop at start-up when the rules file
  is missing or malformed. The constructor reads the token and the user id only; with
  those two in place it returns an application although \<open>actions\<close> fails.
\<close>

theorem startup_without_rules_counterexample:
  "actions (demo_world\<lparr>actions_file := Missing\<rparr>) = Inl ConfigurationUnavailable
   \<and> actions (demo_world\<lparr>actions_file := Malformed\<rparr>) = Inl ConfigurationUnavailable
   \<and> init (demo_world\<lparr>actions_file := Missing\<rparr>) = Inr \<lparr>bot_token = ''123:abc'', filter_user = 42\<rparr>
   \<and> init (demo_world\<lparr>actions_file := Malformed\<rparr>) = Inr \<lparr>bot_token = ''123:abc'', filter_user = 42\<rparr>"
  by (simp add: actions_def init_def token_def user_id_def demo_world_def)

text \<open>
  C2, amended. A missing or malformed rules file does not affect the constructor, whose
  result is the same whatever the rules file holds. The failure is met per message: a
  message with a document named \<open>*.pdf\<close> that the platform holds, with a first page, is
  downloaded, and the handler then fails with \<open>ConfigurationUnavailable\<close>; nothing is
  saved and nothing is sent.
\<close>

theorem rules_failure_is_per_message:
  assumes bad: "actions_file w = Missing \<or> actions_file w = Malformed"
    and msg: "message u = Some m" and att: "document m = Some dm"
    and named: "file_name dm = Some fn" and ext: "endswith fn ''.pdf''"
    and held: "remote w (file_id dm) = Some (PDF doc)" and page: "pages doc \<noteq> []"
    and tmp1: "dropWhile (\<lambda>n. n \<in> set (dirs w)) (tmp_names w) = d1 # rest1"
    and tmp2: "dropWhile (\<lambda>n. n \<in> set (d1 # dirs w)) rest1 = d2 # rest2"
  shows "init (w\<lparr>actions_file := a\<rparr>) = init w
         \<and> fst (handler sf u w) = Inl ConfigurationUnavailable
         \<and> trace (snd (handler sf u w)) = trace w @ [Downloaded (file_id dm) (d1, fn)]"
proof -
  let ?w1 = "download_to_drive (file_id dm) (PDF doc) (d1, fn) (w\<lparr>tmp_names := rest1, dirs := d1 # dirs w\<rparr>)"
  let ?body = "\<lambda>copy. send_document (chat_id m) copy"
  have t2: "dropWhile (\<lambda>n. n \<in> set (dirs ?w1)) (tmp_names ?w1) = d2 # rest2"
    using tmp2 by (simp add: download_to_drive_def)
  have f: "files ?w1 (d1, fn) = Some (PDF doc)"
    by (simp add: download_to_drive_def)
  have b: "pages doc \<noteq> [] \<and> (actions_file ?w1 = Missing \<or> actions_file ?w1 = Malformed)
      \<and> ConfigurationUnavailable = ConfigurationUnavailable"
    using bad page by (simp add: download_to_drive_def)
  have inner: "process_document sf (d1, fn) ?body ?w1 =
      (Inl ConfigurationUnavailable,
       cleanup d2 (?w1\<lparr>tmp_names := rest2, dirs := d2 # dirs ?w1, rng := (\<lambda>i. rng ?w1 (i + 8))\<rparr>))"
    using b by (intro process_document_fails [OF t2 f]) simp
  have run: "handler sf u w =
      (Inl ConfigurationUnavailable,
       cleanup d1 (cleanup d2 (?w1\<lparr>tmp_names := rest2, dirs := d2 # dirs ?w1, rng := (\<lambda>i. rng ?w1 (i + 8))\<rparr>)))"
    using msg att named ext held
    by (simp add: handler_def download_document_def TemporaryDirectory_def mkdtemp_ok [OF tmp1]
        inner Let_def)
  have "token (w\<lparr>actions_file := a\<rparr>) = token w"
    by (simp add: token_def)
  moreover have "user_id (w\<lparr>actions_file := a\<rparr>) = user_id w"
    by (simp add: user_id_def)
  ultimately have start: "init (w\<lparr>actions_file := a\<rparr>) = init w"
    by (simp add: init_def split: sum.splits)
  show ?thesis
    by (simp add: start run cleanup_def download_to_drive_def)
qed

theorem rules_failure_is_per_message_witness:
  "actions_file (demo_world\<lparr>actions_file := Missing\<rparr>) = Missing
   \<and> init (demo_world\<lparr>actions_file := Missing\<rparr>) = Inr \<lparr>bot_token = ''123:abc'', filter_user = 42\<rparr>
   \<and> fst (handler demo_search \<lparr>message = Some (demo_message (Some ''inv.pdf''))\<rparr>
             (demo_world\<lparr>actions_file := Missing\<rparr>)) = Inl ConfigurationUnavailable
   \<and> trace (snd (handler demo_search \<lparr>message = Some (demo_message (Some ''inv.pdf''))\<rparr>
                   (demo_world\<lparr>actions_file := Missing\<rparr>))) =
       [Downloaded ''f1'' (''tmp0'', ''inv.pdf'')]"
proof -
  let ?w = "demo_world\<lparr>actions_file := Missing\<rparr>"
  let ?u = "\<lparr>message = Some (demo_message (Some ''inv.pdf''))\<rparr>"
  have bad: "actions_file ?w = Missing \<or> actions_file ?w = Malformed" by simp
  have msg: "message ?u = Some (demo_message (Some ''inv.pdf''))" by simp
  have att: "document (demo_message (Some ''inv.pdf'')) = Some \<lparr>file_id = ''f1'', file_name = Some ''inv.pdf''\<rparr>"
    by (simp add: demo_message_def)
  have named: "file_name \<lparr>file_id = ''f1'', file_name = Some ''inv.pdf''\<rparr> = Some ''inv.pdf''" by simp
  have ext: "endswith ''inv.pdf'' ''.pdf''" by (simp add: endswith_def)
  have held: "remote ?w (file_id \<lparr>file_id = ''f1'', file_name = Some ''inv.pdf''\<rparr>) = Some (PDF demo_doc)"
    by (simp add: demo_world_def)
  have page: "pages demo_doc \<noteq> []" by (simp add: demo_doc_def)
  have tmp1: "dropWhile (\<lambda>n. n \<in> set (dirs ?w)) (tmp_names ?w) = ''tmp0'' # [''tmp1'']"
    by (simp add: demo_world_def)
  have tmp2: "dropWhile (\<lambda>n. n \<in> set (''tmp0'' # dirs ?w)) [''tmp1''] = ''tmp1'' # []"
    by (simp add: demo_world_def)
  have tr: "trace ?w = []" by (simp add: demo_world_def)
  have start: "init ?w = Inr \<lparr>bot_token = ''123:abc'', filter_user = 42\<rparr>"
    by (simp add: init_def token_def user_id_def demo_world_def)
  show ?thesis
    using rules_failure_is_per_message [OF bad msg att named ext held page tmp1 tmp2, of Missing demo_search]
      tr start
    by simp
qed

text \<open>
  C3, as stated, fails. The claim places the inserted text at the top-left corner of the
  rectangle. The source passes \<^verbatim>\<open>fitz.Point(rect.x0, rect.y1)\<close>; the top-left corner of a
  \<^verbatim>\<open>fitz.Rect\<close> is \<open>(x0, y0)\<close>. For the rectangle \<open>(72, 100, 110, 112)\<close> the text goes to
  \<open>(72, 112)\<close>, the bottom-left corner, and no insertion is made at \<open>(72, 100)\<close>.
\<close>

theorem insertion_at_top_left_counterexample:
  "ops (apply_entry demo_search demo_page demo_rule) =
     [AddRedactAnnot demo_rect, ApplyRedactions,
      InsertText (Point 72 112) ''Invoice'' 8 ''helv'' (0, 0, 0)]
   \<and> top_left demo_rect = Point 72 100
   \<and> bottom_left demo_rect = Point 72 112
   \<and> InsertText (top_left demo_rect) ''Invoice'' 8 ''helv'' (0, 0, 0)
        \<notin> set (ops (apply_entry demo_search demo_page demo_rule))"
  by (simp add: apply_entry_def falsy_def demo_rule_def demo_search_def demo_page_def
      demo_rect_def replace_occurrence_ops top_left_def bottom_left_def)

text \<open>
  C3, amended. For a rule that is applied, every rectangle the search returned gets an
  insertion of the text searched for at \<open>(x0, y1)\<close>, the bottom-left corner of the
  rectangle, with font size 8, font \<open>helv\<close> and colour \<open>(0, 0, 0)\<close>; and every insertion
  on the page afterwards was either there before or is one of these.
\<close>

theorem insertion_at_bottom_left:
  assumes "entry ''replace'' = Some t" and "entry ''with'' = Some n"
    and "t \<noteq> []" and "n \<noteq> []"
  shows "(\<forall>r \<in> set (sf p t).
            InsertText (bottom_left r) t 8 ''helv'' (0, 0, 0) \<in> set (ops (apply_entry sf p entry)))
         \<and> (\<forall>pt s fs fn c.
              InsertText pt s fs fn c \<in> set (ops (apply_entry sf p entry)) \<longrightarrow>
              InsertText pt s fs fn c \<in> set (ops p) \<or>
              (\<exists>r \<in> set (sf p t). pt = bottom_left r) \<and> s = t \<and> fs = 8 \<and> fn = ''helv'' \<and> c = (0, 0, 0))"
proof -
  have "ops (apply_entry sf p entry) =
      ops p @ concat (map (\<lambda>r. [AddRedactAnnot r, ApplyRedactions,
                                InsertText (Point (x0 r) (y1 r)) t 8 ''helv'' (0, 0, 0)]) (sf p t))"
    using assms by (simp add: apply_entry_rule foldl_replace_ops)
  then show ?thesis
    by (auto simp add: bottom_left_def)
qed

theorem insertion_at_bottom_left_witness:
  "demo_rule ''replace'' = Some ''Invoice'' \<and> demo_rule ''with'' = Some ''Receipt''
   \<and> demo_search demo_page ''Invoice'' = [demo_rect]
   \<and> InsertText (bottom_left demo_rect) ''Invoice'' 8 ''helv'' (0, 0, 0)
        \<in> set (ops (apply_entry demo_search demo_page demo_rule))"
  using insertion_at_bottom_left [of demo_rule "''Invoice''" "''Receipt''" demo_search demo_page]
  by (simp add: demo_rule_def demo_search_def)

text \<open>
  C4. When \<open>process_document\<close> reaches its \<^verbatim>\<open>yield\<close>, the location it yields is in a
  directory that did not exist before the call and exists now, under the name made of
  the stem of the input, a hyphen, the string \<open>random_string 8\<close> returned, a dot and the
  suffix of the input; that string has 8 characters, each a lowercase letter or a digit;
  and the document has been saved at that location. (The suffix keeps its own dot, so
  the name of \<open>inv.pdf\<close> becomes \<open>inv-adgjmpsv..pdf\<close>.)
\<close>

theorem output_location:
  fixes body :: "path \<Rightarrow> world \<Rightarrow> 'a result"
  assumes tmp: "dropWhile (\<lambda>n. n \<in> set (dirs w)) (tmp_names w) = d # rest"
    and pdf: "files w p = Some (PDF doc)"
    and page: "pages doc \<noteq> []"
    and rules: "actions_file w = Loaded es"
  shows "let h = fst (random_string 8 w); location = (d, stem p @ ''-'' @ h @ ''.'' @ suffix p)
         in length h = 8 \<and> set h \<subseteq> set ascii_lowercase \<union> set digits
            \<and> d \<notin> set (dirs w)
            \<and> (\<exists>w2 saved.
                  d \<in> set (dirs w2)
                  \<and> process_document sf p body w =
                      (case body location w2 of (r, w3) \<Rightarrow> (r, cleanup d w3))
                  \<and> files w2 location = Some (PDF saved)
                  \<and> trace w2 = trace w @ [Saved location saved])"
proof -
  let ?h = "choices (ascii_lowercase @ digits) 8 (rng w)"
  let ?loc = "(d, stem p @ ''-'' @ ?h @ ''.'' @ suffix p)"
  let ?w2 = "save (doc\<lparr>pages := [apply_actions sf (pages doc ! 0) es]\<rparr>) ?loc
               (w\<lparr>tmp_names := rest, dirs := d # dirs w, rng := (\<lambda>i. rng w (i + 8))\<rparr>)"
  have h: "fst (random_string 8 w) = ?h"
    by (simp add: random_string_def)
  have run: "process_document sf p body w = (case body ?loc ?w2 of (r, w3) \<Rightarrow> (r, cleanup d w3))"
    by (rule process_document_yields [OF tmp pdf page rules])
  have len: "length ?h = 8"
    by (rule choices_length)
  have "set ?h \<subseteq> set (ascii_lowercase @ digits)"
    by (rule choices_set) (simp add: digits_def)
  then have chars: "set ?h \<subseteq> set ascii_lowercase \<union> set digits"
    by simp
  have fresh: "d \<notin> set (dirs w)"
    by (rule mkdtemp_fresh [OF tmp])
  have there: "d \<in> set (dirs ?w2)"
    by (simp add: save_def)
  have saved: "files ?w2 ?loc = Some (PDF (doc\<lparr>pages := [apply_actions sf (pages doc ! 0) es]\<rparr>))"
    by (simp add: save_def)
  have tr: "trace ?w2 = trace w @ [Saved ?loc (doc\<lparr>pages := [apply_actions sf (pages doc ! 0) es]\<rparr>)]"
    by (simp add: save_def)
  have "\<exists>w2 saved. d \<in> set (dirs w2)
      \<and> process_document sf p body w = (case body ?loc w2 of (r, w3) \<Rightarrow> (r, cleanup d w3))
      \<and> files w2 ?loc = Some (PDF saved) \<and> trace w2 = trace w @ [Saved ?loc saved]"
    using there run saved tr by blast
  then show ?thesis
    using len chars fresh by (simp add: h Let_def)
qed

theorem output_location_witness:
  "fst (random_string 8 demo_world) = ''adgjmpsv''
   \<and> ''tmp0'' \<notin> set (dirs demo_world)
   \<and> (\<exists>w2 saved.
         ''tmp0'' \<in> set (dirs w2)
         \<and> process_document demo_search (''in'', ''inv.pdf'') (send_document 7) demo_world =
             (case send_document 7 (''tmp0'', ''inv-adgjmpsv..pdf'') w2 of
                (r, w3) \<Rightarrow> (r, cleanup ''tmp0'' w3))
         \<and> files w2 (''tmp0'', ''inv-adgjmpsv..pdf'') = Some (PDF saved)
         \<and> trace w2 = trace demo_world @ [Saved (''tmp0'', ''inv-adgjmpsv..pdf'') saved])"
proof -
  have tmp: "dropWhile (\<lambda>n. n \<in> set (dirs demo_world)) (tmp_names demo_world) = ''tmp0'' # [''tmp1'']"
    by (simp add: demo_world_def)
  have pdf: "files demo_world (''in'', ''inv.pdf'') = Some (PDF demo_doc)"
    by (simp add: demo_world_def)
  have page: "pages demo_doc \<noteq> []"
    by (simp add: demo_doc_def)
  have rules: "actions_file demo_world = Loaded [demo_rule]"
    by (simp add: demo_world_def)
  show ?thesis
    using output_location [OF tmp pdf page rules, of demo_search "send_document 7"]
    by (simp add: demo_hash demo_name Let_def)
qed

text \<open>
  C5. For a document with at least one page, the document saved has exactly one page:
  the first page of the input, with the rules applied to it. This rests on \<open>select\<close>,
  which is the library's and is modelled from the specification.
\<close>

theorem output_has_one_page:
  fixes body :: "path \<Rightarrow> world \<Rightarrow> 'a result"
  assumes tmp: "dropWhile (\<lambda>n. n \<in> set (dirs w)) (tmp_names w) = d # rest"
    and pdf: "files w p = Some (PDF doc)"
    and page: "pages doc \<noteq> []"
    and rules: "actions_file w = Loaded es"
  shows "\<exists>location w2 saved.
           process_document sf p body w =
             (case body location w2 of (r, w3) \<Rightarrow> (r, cleanup d w3))
           \<and> files w2 location = Some (PDF saved)
           \<and> trace w2 = trace w @ [Saved location saved]
           \<and> length (pages saved) = 1
           \<and> pages saved = [apply_actions sf (pages doc ! 0) es]
           \<and> original (pages saved ! 0) = original (pages doc ! 0)"
proof -
  let ?loc = "(d, stem p @ ''-'' @ choices (ascii_lowercase @ digits) 8 (rng w) @ ''.'' @ suffix p)"
  let ?saved = "doc\<lparr>pages := [apply_actions sf (pages doc ! 0) es]\<rparr>"
  let ?w2 = "save ?saved ?loc (w\<lparr>tmp_names := rest, dirs := d # dirs w, rng := (\<lambda>i. rng w (i + 8))\<rparr>)"
  have run: "process_document sf p body w = (case body ?loc ?w2 of (r, w3) \<Rightarrow> (r, cleanup d w3))"
    by (rule process_document_yields [OF tmp pdf page rules])
  have a: "files ?w2 ?loc = Some (PDF ?saved)"
    by (simp add: save_def)
  have b: "trace ?w2 = trace w @ [Saved ?loc ?saved]"
    by (simp add: save_def)
  have c: "length (pages ?saved) = 1 \<and> pages ?saved = [apply_actions sf (pages doc ! 0) es]
      \<and> original (pages ?saved ! 0) = original (pages doc ! 0)"
    by (simp add: apply_actions_original)
  show ?thesis
    using run a b c by blast
qed

theorem output_has_one_page_witness:
  "length (pages demo_doc) = 2
   \<and> (\<exists>location w2 saved.
         process_document demo_search (''in'', ''inv.pdf'') (send_document 7) demo_world =
           (case send_document 7 location w2 of (r, w3) \<Rightarrow> (r, cleanup ''tmp0'' w3))
         \<and> files w2 location = Some (PDF saved)
         \<and> length (pages saved) = 1
         \<and> original (pages saved ! 0) = ''Invoice #42'')"
proof -
  have tmp: "dropWhile (\<lambda>n. n \<in> set (dirs demo_world)) (tmp_names demo_world) = ''tmp0'' # [''tmp1'']"
    by (simp add: demo_world_def)
  have pdf: "files demo_world (''in'', ''inv.pdf'') = Some (PDF demo_doc)"
    by (simp add: demo_world_def)
  have page: "pages demo_doc \<noteq> []"
    by (simp add: demo_doc_def)
  have rules: "actions_file demo_world = Loaded [demo_rule]"
    by (simp add: demo_world_def)
  have first: "original (pages demo_doc ! 0) = ''Invoice #42''"
    by (simp add: demo_doc_def demo_page_def)
  have two: "length (pages demo_doc) = 2"
    by (simp add: demo_doc_def)
  from output_has_one_page [OF tmp pdf page rules, of demo_search "send_document 7"]
  obtain location w2 saved where
    run: "process_document demo_search (''in'', ''inv.pdf'') (send_document 7) demo_world =
       (case send_document 7 location w2 of (r, w3) \<Rightarrow> (r, cleanup ''tmp0'' w3))"
    and there: "files w2 location = Some (PDF saved)"
    and one: "length (pages saved) = 1"
    and same: "original (pages saved ! 0) = original (pages demo_doc ! 0)"
    by blast
  have "original (pages saved ! 0) = ''Invoice #42''"
    using same first by simp
  then show ?thesis
    using two run there one by blast
qed

text \<open>
  C6. For a document without pages, \<open>process_document\<close> fails with
  \<open>PageSelectionFailed\<close>: the caller's block is not run, nothing is saved, and no file is
  there afterwards that was not there before. This rests on \<open>select\<close>, which is the
  library's and is modelled from the specification.
\<close>

theorem empty_document_fails:
  fixes body :: "path \<Rightarrow> world \<Rightarrow> 'a result"
  assumes tmp: "dropWhile (\<lambda>n. n \<in> set (dirs w)) (tmp_names w) = d # rest"
    and pdf: "files w p = Some (PDF doc)"
    and empty: "pages doc = []"
  shows "fst (process_document sf p body w) = Inl PageSelectionFailed
         \<and> trace (snd (process_document sf p body w)) = trace w
         \<and> files (snd (process_document sf p body w)) \<subseteq>\<^sub>m files w"
proof -
  have "process_document sf p body w =
      (Inl PageSelectionFailed,
       cleanup d (w\<lparr>tmp_names := rest, dirs := d # dirs w, rng := (\<lambda>i. rng w (i + 8))\<rparr>))"
    using empty by (intro process_document_fails [OF tmp pdf]) simp
  then show ?thesis
    by (auto simp add: cleanup_def map_le_def)
qed

theorem empty_document_fails_witness:
  "files demo_world (''in'', ''empty.pdf'') = Some (PDF \<lparr>pages = []\<rparr>)
   \<and> fst (process_document demo_search (''in'', ''empty.pdf'') (send_document 7) demo_world)
       = Inl PageSelectionFailed
   \<and> trace (snd (process_document demo_search (''in'', ''empty.pdf'') (send_document 7) demo_world))
       = []"
proof -
  have tmp: "dropWhile (\<lambda>n. n \<in> set (dirs demo_world)) (tmp_names demo_world) = ''tmp0'' # [''tmp1'']"
    by (simp add: demo_world_def)
  have pdf: "files demo_world (''in'', ''empty.pdf'') = Some (PDF \<lparr>pages = []\<rparr>)"
    by (simp add: demo_world_def)
  have tr: "trace demo_world = []"
    by (simp add: demo_world_def)
  show ?thesis
    using empty_document_fails [OF tmp pdf, of demo_search "send_document 7"] pdf tr
    by simp
qed

text \<open>
  C7. A rule whose \<^verbatim>\<open>replace\<close> or \<^verbatim>\<open>with\<close> value is missing or empty leaves the page as
  it is, and a rule list gives the same page with the rule as without it. The loop has
  no failing branch for such a rule: no library call is made for it.
\<close>

theorem skipped_rule_is_noop:
  assumes "entry ''replace'' = None \<or> entry ''replace'' = Some [] \<or>
           entry ''with'' = None \<or> entry ''with'' = Some []"
  shows "apply_entry sf p entry = p
         \<and> apply_actions sf p (before @ entry # after) = apply_actions sf p (before @ after)"
proof -
  have "falsy (entry ''replace'') \<or> falsy (entry ''with'')"
    using assms by (auto simp add: falsy_def)
  then have skip: "\<And>q. apply_entry sf q entry = q"
    by (rule apply_entry_skip)
  show ?thesis
    by (simp add: skip apply_actions_def)
qed

theorem skipped_rule_is_noop_witness:
  "demo_inert ''with'' = None
   \<and> apply_entry demo_search demo_page demo_inert = demo_page
   \<and> apply_actions demo_search demo_page ([demo_rule] @ demo_inert # [demo_rule2]) =
       apply_actions demo_search demo_page ([demo_rule] @ [demo_rule2])"
  using skipped_rule_is_noop [of demo_inert demo_search demo_page "[demo_rule]" "[demo_rule2]"]
  by (simp add: demo_inert_def)

text \<open>
  C8. For a message without a document, or with a document whose file name does not end
  in \<open>.pdf\<close> (compared character by character, so \<open>SCAN.PDF\<close> does not), the handler
  returns without an error and leaves the state as it was: no event is added, so nothing
  is downloaded, processed or sent. The file name here is one that is there; a document
  without a file name is the case of C10.
\<close>

theorem non_pdf_is_ignored:
  assumes "message u = Some m"
    and "document m = None \<or>
         (\<exists>d fn. document m = Some d \<and> file_name d = Some fn \<and> \<not> endswith fn ''.pdf'')"
  shows "handler sf u w = (Inr (), w)"
  using assms by (auto simp add: handler_def)

theorem non_pdf_is_ignored_witness:
  "\<not> endswith ''notes.docx'' ''.pdf'' \<and> \<not> endswith ''SCAN.PDF'' ''.pdf''
   \<and> handler demo_search \<lparr>message = Some \<lparr>chat_id = 7, document = None\<rparr>\<rparr> demo_world = (Inr (), demo_world)
   \<and> handler demo_search \<lparr>message = Some (demo_message (Some ''notes.docx''))\<rparr> demo_world = (Inr (), demo_world)
   \<and> handler demo_search \<lparr>message = Some (demo_message (Some ''SCAN.PDF''))\<rparr> demo_world = (Inr (), demo_world)"
proof -
  have a: "\<not> endswith ''notes.docx'' ''.pdf''" by (simp add: endswith_def)
  have b: "\<not> endswith ''SCAN.PDF'' ''.pdf''" by (simp add: endswith_def)
  have "handler demo_search \<lparr>message = Some \<lparr>chat_id = 7, document = None\<rparr>\<rparr> demo_world = (Inr (), demo_world)"
    by (rule non_pdf_is_ignored [of _ "\<lparr>chat_id = 7, document = None\<rparr>"]) simp_all
  moreover have "handler demo_search \<lparr>message = Some (demo_message (Some ''notes.docx''))\<rparr> demo_world = (Inr (), demo_world)"
    by (rule non_pdf_is_ignored [of _ "demo_message (Some ''notes.docx'')"]) (simp_all add: demo_message_def a)
  moreover have "handler demo_search \<lparr>message = Some (demo_message (Some ''SCAN.PDF''))\<rparr> demo_world = (Inr (), demo_world)"
    by (rule non_pdf_is_ignored [of _ "demo_message (Some ''SCAN.PDF'')"]) (simp_all add: demo_message_def b)
  ultimately show ?thesis using a b by simp
qed

text \<open>
  C9. Rules are applied in the order of the list, each to the page the rules before it
  left: the page after the first \<open>i + 1\<close> rules is rule \<open>i\<close> applied to the page after
  the first \<open>i\<close>, the remaining rules follow from there, and when rule \<open>i\<close> is applied
  its search is made on the page after the first \<open>i\<close> rules. In the concrete run the
  second rule finds \<open>#42\<close> on the original page but not on the page the first rule left,
  and changes nothing.
\<close>

theorem rules_apply_in_order:
  assumes "i < length es"
  shows "apply_actions sf p (take (Suc i) es) =
           apply_entry sf (apply_actions sf p (take i es)) (es ! i)
         \<and> apply_actions sf p es =
             apply_actions sf (apply_actions sf p (take (Suc i) es)) (drop (Suc i) es)
         \<and> (\<forall>t n. (es ! i) ''replace'' = Some t \<and> (es ! i) ''with'' = Some n \<and> t \<noteq> [] \<and> n \<noteq> [] \<longrightarrow>
              apply_entry sf (apply_actions sf p (take i es)) (es ! i) =
                foldl (replace_occurrence t) (apply_actions sf p (take i es))
                  (sf (apply_actions sf p (take i es)) t))"
proof -
  have "take (Suc i) es = take i es @ [es ! i]"
    using assms by (simp add: take_Suc_conv_app_nth)
  then have a: "apply_actions sf p (take (Suc i) es) =
      apply_entry sf (apply_actions sf p (take i es)) (es ! i)"
    by (simp add: apply_actions_def)
  have "apply_actions sf p (take (Suc i) es @ drop (Suc i) es) =
      apply_actions sf (apply_actions sf p (take (Suc i) es)) (drop (Suc i) es)"
    by (rule apply_actions_append)
  then have b: "apply_actions sf p es =
      apply_actions sf (apply_actions sf p (take (Suc i) es)) (drop (Suc i) es)"
    by simp
  show ?thesis
    using a b by (simp add: apply_entry_rule)
qed

theorem rules_apply_in_order_witness:
  "(1::nat) < length [demo_rule, demo_rule2]
   \<and> demo_search demo_page ''#42'' = [demo_rect2]
   \<and> demo_search (apply_actions demo_search demo_page [demo_rule]) ''#42'' = []
   \<and> apply_actions demo_search demo_page [demo_rule, demo_rule2] =
       apply_actions demo_search demo_page [demo_rule]"
proof -
  have len: "(1::nat) < length [demo_rule, demo_rule2]" by simp
  have first: "ops (apply_actions demo_search demo_page [demo_rule]) \<noteq> []"
    by (simp add: apply_actions_def apply_entry_def falsy_def demo_rule_def demo_search_def
        replace_occurrence_ops)
  have s1: "demo_search demo_page ''#42'' = [demo_rect2]"
    by (simp add: demo_search_def demo_page_def)
  have s2: "demo_search (apply_actions demo_search demo_page [demo_rule]) ''#42'' = []"
    using first by (simp add: demo_search_def)
  have "apply_actions demo_search demo_page (take (Suc 1) [demo_rule, demo_rule2]) =
      foldl (replace_occurrence ''#42'') (apply_actions demo_search demo_page (take 1 [demo_rule, demo_rule2]))
        (demo_search (apply_actions demo_search demo_page (take 1 [demo_rule, demo_rule2])) ''#42'')"
    using rules_apply_in_order [OF len, of demo_search demo_page]
    by (simp add: demo_rule2_def)
  then have "apply_actions demo_search demo_page [demo_rule, demo_rule2] =
      apply_actions demo_search demo_page [demo_rule]"
    using s2 by simp
  with len s1 s2 show ?thesis by simp
qed

text \<open>
  C10. For a message with a document that has no file name, the handler raises an
  \<^verbatim>\<open>AttributeError\<close>: \<^verbatim>\<open>endswith\<close> is called on \<^verbatim>\<open>None\<close>. Nothing else happens.
\<close>

theorem missing_file_name_raises:
  assumes "message u = Some m" and "document m = Some d" and "file_name d = None"
  shows "handler sf u w = (Inl AttributeError, w)"
  using assms by (simp add: handler_def)

theorem missing_file_name_raises_witness:
  "file_name \<lparr>file_id = ''f1'', file_name = None\<rparr> = None
   \<and> handler demo_search \<lparr>message = Some (demo_message None)\<rparr> demo_world = (Inl AttributeError, demo_world)"
  using missing_file_name_raises [of "\<lparr>message = Some (demo_message None)\<rparr>" "demo_message None"
      "\<lparr>file_id = ''f1'', file_name = None\<rparr>" demo_search demo_world]
  by (simp add: demo_message_def)

end
